theory Spec2Isabelle
  imports Complex_Main "HOL-Library.Multiset"
begin

section \<open>Data model\<close>

text \<open>
  The agent-based housing model of \<^verbatim>\<open>real_estate_toolkit/agent_based_model\<close>.
  Python \<^verbatim>\<open>int\<close> is \<^typ>\<open>int\<close>. Python \<^verbatim>\<open>float\<close> is \<^typ>\<open>real\<close>: the arithmetic of the
  model is exact, so the theorems below speak about the formulas the code evaluates and not
  about the rounding error of binary floating point. Exceptions are values of
  \<^verbatim>\<open>py_error\<close>, and a method that may raise returns a sum with the error on the left.
\<close>

datatype py_error = ValueError | ZeroDivisionError | KeyError | TypeError | RuntimeError

datatype QualityScore = EXCELLENT | GOOD | AVERAGE_SCORE | FAIR | POOR

datatype Segment = FANCY | OPTIMIZER | AVERAGE

datatype CleaningMarketMechanism =
  INCOME_ORDER_DESCENDANT | INCOME_ORDER_ASCENDANT | RANDOM

text \<open>The dataclass \<^verbatim>\<open>House\<close> (houses.py); the field \<^verbatim>\<open>id\<close> is \<open>house_id\<close> here.\<close>

record house =
  house_id :: int
  price :: real
  area :: real
  bedrooms :: int
  year_built :: int
  quality_score :: "QualityScore option"
  available :: bool

text \<open>
  The dataclass \<^verbatim>\<open>Consumer\<close> (consumers.py). Its attribute \<^verbatim>\<open>house\<close> is a reference to a
  \<^verbatim>\<open>House\<close> object that stays a member of the market's list; the reference is the
  position of that object in the list.
\<close>

record consumer =
  consumer_id :: int
  annual_income :: real
  children_number :: int
  segment :: Segment
  house :: "nat option"
  savings :: real
  saving_rate :: real
  interest_rate :: real

section \<open>Built-in functions of Python used by the code\<close>

text \<open>
  \<^verbatim>\<open>round(x, n)\<close> on a float rounds to the nearest multiple of \<open>10^-n\<close> and resolves a
  tie to the even multiple.
\<close>

definition round_half_even :: "real \<Rightarrow> int" where
  "round_half_even x =
     (let f = \<lfloor>x\<rfloor>; d = x - of_int f
      in if d < 1 / 2 then f
         else if 1 / 2 < d then f + 1
         else if even f then f else f + 1)"

definition py_round :: "real \<Rightarrow> nat \<Rightarrow> real" where
  "py_round x n = of_int (round_half_even (x * 10 ^ n)) / 10 ^ n"

text \<open>
  \<^verbatim>\<open>statistics.mean\<close>: raises \<^verbatim>\<open>StatisticsError\<close>, a subclass of \<^verbatim>\<open>ValueError\<close>, on
  empty data.
\<close>

definition mean :: "real list \<Rightarrow> py_error + real" where
  "mean xs = (if xs = [] then Inl ValueError else Inr (sum_list xs / real (length xs)))"

section \<open>House (houses.py)\<close>

definition calculate_price_per_square_foot :: "house \<Rightarrow> py_error + real" where
  "calculate_price_per_square_foot h =
     (if area h \<le> 0 then Inl ValueError
      else Inr (py_round (price h / area h) 2))"

definition is_new_construction :: "house \<Rightarrow> int \<Rightarrow> py_error + bool" where
  "is_new_construction h current_year =
     (if year_built h > current_year then Inl ValueError
      else if year_built h < 1800 then Inl ValueError
      else Inr (current_year - year_built h < 5))"







definition sell_house :: "house \<Rightarrow> house" where
  "sell_house h = h\<lparr>available := False\<rparr>"

section \<open>HousingMarket (house\_market.py)\<close>

text \<open>
  The market is its list of houses. The identifier index \<^verbatim>\<open>_house_index\<close> is read by
  \<^verbatim>\<open>get_house_by_id\<close> only, which no function below calls.
\<close>

definition calculate_average_price :: "house list \<Rightarrow> int option \<Rightarrow> py_error + real" where
  "calculate_average_price houses bedrooms_filter =
     (if (case bedrooms_filter of None \<Rightarrow> False | Some b \<Rightarrow> b < 0) then Inl ValueError
      else
        let filtered_houses =
              filter (\<lambda>h. available h \<and>
                        (case bedrooms_filter of None \<Rightarrow> True | Some b \<Rightarrow> bedrooms h = b))
                     houses
        in if filtered_houses = [] then Inl ValueError
           else mean (map price filtered_houses))"

text \<open>
  The body of the \<^verbatim>\<open>try\<close> block of the OPTIMIZER branch: \<open>Inr True\<close> when the house is
  kept, \<open>Inr False\<close> when the branch says \<^verbatim>\<open>continue\<close>.
\<close>

definition optimizer_try :: "house list \<Rightarrow> house \<Rightarrow> py_error + bool" where
  "optimizer_try houses h =
     (case calculate_price_per_square_foot h of
        Inl e \<Rightarrow> Inl e
      | Inr house_price_per_sqft \<Rightarrow>
          (case calculate_average_price houses None of
             Inl e \<Rightarrow> Inl e
           | Inr market_avg_price \<Rightarrow>
               (case mean (map area (filter available houses)) of
                  Inl e \<Rightarrow> Inl e
                | Inr market_avg_size \<Rightarrow>
                    if market_avg_size = 0 then Inl ZeroDivisionError
                    else Inr (\<not> (house_price_per_sqft \<ge> market_avg_price / market_avg_size)))))"

definition average_try :: "house list \<Rightarrow> house \<Rightarrow> py_error + bool" where
  "average_try houses h =
     (case calculate_average_price houses None of
        Inl e \<Rightarrow> Inl e
      | Inr market_avg_price \<Rightarrow> Inr (\<not> (price h > market_avg_price)))"

text \<open>
  One iteration of the loop of \<^verbatim>\<open>get_houses_that_meet_requirements\<close>: whether the house
  is appended. The FANCY branch calls \<^verbatim>\<open>is_new_construction\<close> outside any \<^verbatim>\<open>try\<close>;
  the other two branches catch the listed exceptions and skip the house.
\<close>

definition house_meets :: "house list \<Rightarrow> real \<Rightarrow> Segment \<Rightarrow> house \<Rightarrow> py_error + bool" where
  "house_meets houses max_price seg h =
     (if \<not> available h \<or> price h > max_price then Inr False
      else case seg of
        FANCY \<Rightarrow>
          (case is_new_construction h 2024 of
             Inl e \<Rightarrow> Inl e
           | Inr new \<Rightarrow> Inr (\<not> (\<not> new \<or> quality_score h \<noteq> Some EXCELLENT)))
      | OPTIMIZER \<Rightarrow>
          (case optimizer_try houses h of
             Inl e \<Rightarrow> if e = ValueError \<or> e = ZeroDivisionError then Inr False else Inl e
           | Inr keep \<Rightarrow> Inr keep)
      | AVERAGE \<Rightarrow>
          (case average_try houses h of
             Inl e \<Rightarrow> if e = ValueError then Inr False else Inl e
           | Inr keep \<Rightarrow> Inr keep))"

text \<open>
  The loop over \<^verbatim>\<open>self.houses\<close>. The result lists references to the matching houses
  (positions in the market's list) in iteration order; the first exception ends the loop.
\<close>

fun matching_houses :: "house list \<Rightarrow> real \<Rightarrow> Segment \<Rightarrow> nat \<Rightarrow> house list \<Rightarrow> py_error + nat list" where
  "matching_houses houses max_price seg k [] = Inr []"
| "matching_houses houses max_price seg k (h # rest) =
     (case house_meets houses max_price seg h of
        Inl e \<Rightarrow> Inl e
      | Inr keep \<Rightarrow>
          (case matching_houses houses max_price seg (Suc k) rest of
             Inl e \<Rightarrow> Inl e
           | Inr js \<Rightarrow> Inr (if keep then k # js else js)))"

definition get_houses_that_meet_requirements ::
  "house list \<Rightarrow> real \<Rightarrow> Segment \<Rightarrow> py_error + nat list" where
  "get_houses_that_meet_requirements houses max_price seg =
     (if max_price \<le> 0 then Inl ValueError
      else matching_houses houses max_price seg 0 houses)"

section \<open>Consumer (consumers.py)\<close>



text \<open>
  \<^verbatim>\<open>buy_a_house\<close> mutates the consumer and the selected house of the market; the model
  returns both. An exception of the market query leaves both as they were.
\<close>

definition buy_a_house :: "consumer \<Rightarrow> house list \<Rightarrow> py_error + consumer \<times> house list" where
  "buy_a_house c houses =
     (if house c \<noteq> None then Inr (c, houses)
      else
        let max_price = savings c * 5
        in case get_houses_that_meet_requirements houses max_price (segment c) of
             Inl e \<Rightarrow> Inl e
           | Inr suitable_houses \<Rightarrow>
               (case suitable_houses of
                  [] \<Rightarrow> Inr (c, houses)
                | selected # _ \<Rightarrow>
                    Inr (c\<lparr>house := Some selected,
                           savings := savings c - price (houses ! selected) * (2 / 10)\<rparr>,
                         houses[selected := sell_house (houses ! selected)])))"

section \<open>Simulation (simulation.py)\<close>

text \<open>
  A raw record is a dictionary from field names to cells of any type \<open>'v\<close>. The built-in
  conversions \<^verbatim>\<open>int(...)\<close> and \<^verbatim>\<open>float(...)\<close> on such cells are parameters \<open>to_int\<close> and
  \<open>to_float\<close>: they return the number, or the exception Python raises.
\<close>

fun bind_err :: "'e + 'a \<Rightarrow> ('a \<Rightarrow> 'e + 'b) \<Rightarrow> 'e + 'b" where
  "bind_err (Inl e) f = Inl e"
| "bind_err (Inr x) f = f x"

definition subscript :: "(string \<rightharpoonup> 'v) \<Rightarrow> string \<Rightarrow> py_error + 'v" where
  "subscript d k = (case d k of None \<Rightarrow> Inl KeyError | Some v \<Rightarrow> Inr v)"

definition qual_of_int :: "int \<Rightarrow> QualityScore" where
  "qual_of_int score_value =
     (if score_value \<le> 2 then POOR
      else if score_value \<le> 4 then FAIR
      else if score_value \<le> 6 then AVERAGE_SCORE
      else if score_value \<le> 8 then GOOD
      else EXCELLENT)"

text \<open>\<^verbatim>\<open>conv(data[k])\<close>: the subscript raises \<^verbatim>\<open>KeyError\<close> before anything is converted.\<close>

definition read_field :: "('v \<Rightarrow> py_error + 'a) \<Rightarrow> (string \<rightharpoonup> 'v) \<Rightarrow> string \<Rightarrow> py_error + 'a" where
  "read_field conv d k = bind_err (subscript d k) conv"

text \<open>The optional field: read only if \<^verbatim>\<open>'overall_qual' in data\<close>.\<close>

definition read_quality :: "('v \<Rightarrow> py_error + int) \<Rightarrow> (string \<rightharpoonup> 'v) \<Rightarrow> py_error + QualityScore option" where
  "read_quality to_int d =
     (case d ''overall_qual'' of
        None \<Rightarrow> Inr None
      | Some v \<Rightarrow> bind_err (to_int v) (\<lambda>score_value. Inr (Some (qual_of_int score_value))))"

text \<open>The body of the \<^verbatim>\<open>try\<close> block of \<^verbatim>\<open>create_housing_market\<close> for one record.\<close>

definition make_house ::
  "('v \<Rightarrow> py_error + int) \<Rightarrow> ('v \<Rightarrow> py_error + real) \<Rightarrow> nat \<Rightarrow> (string \<rightharpoonup> 'v) \<Rightarrow> py_error + house" where
  "make_house to_int to_float idx d =
     bind_err (read_quality to_int d) (\<lambda>q.
     bind_err (read_field to_float d ''sale_price'') (\<lambda>p.
     bind_err (read_field to_float d ''gr_liv_area'') (\<lambda>a.
     bind_err (read_field to_int d ''bedroom_abv_gr'') (\<lambda>b.
     bind_err (read_field to_int d ''year_built'') (\<lambda>y.
       Inr \<lparr>house_id = int idx, price = p, area = a, bedrooms = b, year_built = y,
            quality_score = q, available = True\<rparr>)))))"

text \<open>
  The loop over \<^verbatim>\<open>enumerate(self.housing_market_data)\<close>: \<^verbatim>\<open>KeyError\<close> and \<^verbatim>\<open>ValueError\<close>
  are caught and the record is skipped; any other exception leaves the method.
\<close>

fun build_houses ::
  "('v \<Rightarrow> py_error + int) \<Rightarrow> ('v \<Rightarrow> py_error + real) \<Rightarrow> nat \<Rightarrow> (string \<rightharpoonup> 'v) list \<Rightarrow> py_error + house list" where
  "build_houses to_int to_float idx [] = Inr []"
| "build_houses to_int to_float idx (d # ds) =
     (case make_house to_int to_float idx d of
        Inl e \<Rightarrow>
          if e = KeyError \<or> e = ValueError then build_houses to_int to_float (Suc idx) ds
          else Inl e
      | Inr h \<Rightarrow>
          (case build_houses to_int to_float (Suc idx) ds of
             Inl e \<Rightarrow> Inl e
           | Inr hs \<Rightarrow> Inr (h # hs)))"

text \<open>
  The part of a \<^verbatim>\<open>Simulation\<close> object the modelled methods read or write. The attributes
  \<^verbatim>\<open>housing_market\<close> and \<^verbatim>\<open>consumers\<close> do not exist (\<open>None\<close>) until
  \<^verbatim>\<open>create_housing_market\<close> and \<^verbatim>\<open>create_consumers\<close> set them.
\<close>

record 'v simulation =
  housing_market_data :: "(string \<rightharpoonup> 'v) list"
  years :: int
  cleaning_market_mechanism :: CleaningMarketMechanism
  housing_market :: "house list option"
  consumers :: "consumer list option"

definition create_housing_market ::
  "('v \<Rightarrow> py_error + int) \<Rightarrow> ('v \<Rightarrow> py_error + real) \<Rightarrow> 'v simulation \<Rightarrow> py_error + 'v simulation" where
  "create_housing_market to_int to_float sim =
     (case build_houses to_int to_float 0 (housing_market_data sim) of
        Inl e \<Rightarrow> Inl e
      | Inr houses \<Rightarrow> Inr (sim\<lparr>housing_market := Some houses\<rparr>))"

text \<open>
  The order in which \<^verbatim>\<open>clean_the_market\<close> processes the consumers, as references
  (positions in \<^verbatim>\<open>self.consumers\<close>). \<^verbatim>\<open>list.sort\<close> is stable, and with
  \<^verbatim>\<open>reverse=True\<close> it keeps equal keys in their original order. The outcome of
  \<^verbatim>\<open>random.shuffle\<close> is the parameter \<open>shuffled\<close>.
\<close>

definition consumers_to_process ::
  "CleaningMarketMechanism \<Rightarrow> nat list \<Rightarrow> consumer list \<Rightarrow> nat list" where
  "consumers_to_process mechanism shuffled cs =
     (case mechanism of
        INCOME_ORDER_DESCENDANT \<Rightarrow>
          rev (sort_key (\<lambda>i. annual_income (cs ! i)) (rev [0..<length cs]))
      | INCOME_ORDER_ASCENDANT \<Rightarrow> sort_key (\<lambda>i. annual_income (cs ! i)) [0..<length cs]
      | RANDOM \<Rightarrow> shuffled)"

text \<open>
  The loop of purchase attempts. An exception of \<^verbatim>\<open>buy_a_house\<close> ends the loop; the
  consumers and houses mutated so far stay mutated, so the state is returned with the error.
\<close>

fun process_consumers ::
  "nat list \<Rightarrow> consumer list \<Rightarrow> house list \<Rightarrow> py_error option \<times> consumer list \<times> house list" where
  "process_consumers [] cs hs = (None, cs, hs)"
| "process_consumers (i # rest) cs hs =
     (case buy_a_house (cs ! i) hs of
        Inl e \<Rightarrow> (Some e, cs, hs)
      | Inr (c', hs') \<Rightarrow> process_consumers rest (cs[i := c']) hs')"

definition clean_the_market ::
  "nat list \<Rightarrow> 'v simulation \<Rightarrow> py_error option \<times> 'v simulation" where
  "clean_the_market shuffled sim =
     (case (consumers sim, housing_market sim) of
        (Some cs, Some hs) \<Rightarrow>
          (case process_consumers
                  (consumers_to_process (cleaning_market_mechanism sim) shuffled cs) cs hs of
             (err, cs', hs') \<Rightarrow> (err, sim\<lparr>housing_market := Some hs', consumers := Some cs'\<rparr>))
      | _ \<Rightarrow> (Some RuntimeError, sim))"

section \<open>Notions used by the stated properties\<close>








text \<open>A raw record holds field \<open>k\<close> with a cell that \<open>conv\<close> converts.\<close>

definition has_number :: "('v \<Rightarrow> py_error + 'a) \<Rightarrow> (string \<rightharpoonup> 'v) \<Rightarrow> string \<Rightarrow> bool" where
  "has_number conv d k =
     (case d k of None \<Rightarrow> False | Some v \<Rightarrow> (case conv v of Inl e \<Rightarrow> False | Inr x \<Rightarrow> True))"

definition required_fields_ok ::
  "('v \<Rightarrow> py_error + int) \<Rightarrow> ('v \<Rightarrow> py_error + real) \<Rightarrow> (string \<rightharpoonup> 'v) \<Rightarrow> bool" where
  "required_fields_ok to_int to_float d =
     (has_number to_float d ''sale_price'' \<and> has_number to_float d ''gr_liv_area'' \<and>
      has_number to_int d ''bedroom_abv_gr'' \<and> has_number to_int d ''year_built'')"

definition quality_field_ok :: "('v \<Rightarrow> py_error + int) \<Rightarrow> (string \<rightharpoonup> 'v) \<Rightarrow> bool" where
  "quality_field_ok to_int d =
     (case d ''overall_qual'' of
        None \<Rightarrow> True
      | Some v \<Rightarrow> (case to_int v of Inl e \<Rightarrow> False | Inr x \<Rightarrow> True))"

definition well_formed ::
  "('v \<Rightarrow> py_error + int) \<Rightarrow> ('v \<Rightarrow> py_error + real) \<Rightarrow> (string \<rightharpoonup> 'v) \<Rightarrow> bool" where
  "well_formed to_int to_float d = (required_fields_ok to_int to_float d \<and> quality_field_ok to_int d)"



text \<open>
  The eligibility rule of the specification: an available house within the price ceiling
  that satisfies the rule of the segment. The averages are taken over the available houses.
\<close>

definition average_price :: "house list \<Rightarrow> real" where
  "average_price hs =
     sum_list (map price (filter available hs)) / real (length (filter available hs))"

definition average_area :: "house list \<Rightarrow> real" where
  "average_area hs =
     sum_list (map area (filter available hs)) / real (length (filter available hs))"

definition segment_rule :: "house list \<Rightarrow> Segment \<Rightarrow> house \<Rightarrow> bool" where
  "segment_rule hs seg h =
     (case seg of
        FANCY \<Rightarrow> 2024 - year_built h < 5 \<and> quality_score h = Some EXCELLENT
      | OPTIMIZER \<Rightarrow>
          0 < area h \<and> average_area hs \<noteq> 0 \<and>
          py_round (price h / area h) 2 < average_price hs / average_area hs
      | AVERAGE \<Rightarrow> price h \<le> average_price hs)"

definition eligible :: "house list \<Rightarrow> real \<Rightarrow> Segment \<Rightarrow> house \<Rightarrow> bool" where
  "eligible hs max_price seg h = (available h \<and> price h \<le> max_price \<and> segment_rule hs seg h)"

definition year_valid :: "house \<Rightarrow> bool" where
  "year_valid h = (1800 \<le> year_built h \<and> year_built h \<le> 2024)"

section \<open>Sample data\<close>

definition saver :: consumer where
  "saver = \<lparr>consumer_id = 0, annual_income = 50000, children_number = 0, segment = AVERAGE,
     house = None, savings = 0, saving_rate = 3 / 10, interest_rate = 5 / 100\<rparr>"

definition buyer :: consumer where
  "buyer = \<lparr>consumer_id = 1, annual_income = 60000, children_number = 1, segment = AVERAGE,
     house = None, savings = 40000, saving_rate = 3 / 10, interest_rate = 5 / 100\<rparr>"

definition wealthy :: consumer where
  "wealthy = \<lparr>consumer_id = 2, annual_income = 90000, children_number = 2, segment = AVERAGE,
     house = None, savings = 100000, saving_rate = 3 / 10, interest_rate = 5 / 100\<rparr>"

definition small_market :: "house list" where
  "small_market =
     [\<lparr>house_id = 0, price = 250000, area = 2000, bedrooms = 4, year_built = 1990,
        quality_score = Some GOOD, available = True\<rparr>,
      \<lparr>house_id = 1, price = 150000, area = 1500, bedrooms = 3, year_built = 2005,
        quality_score = Some AVERAGE_SCORE, available = True\<rparr>]"

definition new_excellent_house :: house where
  "new_excellent_house = \<lparr>house_id = 0, price = 300000, area = 2500, bedrooms = 4,
     year_built = 2022, quality_score = Some EXCELLENT, available = True\<rparr>"



text \<open>
  Cells as the repository's loader and cleaner hand them over: a string, or \<^verbatim>\<open>None\<close>. The
  two sample conversions agree with \<^verbatim>\<open>int\<close> and \<^verbatim>\<open>float\<close> on the cells of the examples
  below: \<^verbatim>\<open>None\<close> (\<^verbatim>\<open>TypeError\<close>), a non-empty string of decimal digits (its value) and
  the word \<^verbatim>\<open>Gd\<close> (\<^verbatim>\<open>ValueError\<close>). The general theorems hold for all conversions.
\<close>

definition digit_of :: "char \<Rightarrow> nat option" where
  "digit_of c = map_of (zip ''0123456789'' [0, 1, 2, 3, 4, 5, 6, 7, 8, 9]) c"

fun decimal :: "string \<Rightarrow> nat \<Rightarrow> nat option" where
  "decimal [] acc = Some acc"
| "decimal (c # cs) acc =
     (case digit_of c of None \<Rightarrow> None | Some v \<Rightarrow> decimal cs (10 * acc + v))"

definition int_of_cell :: "string option \<Rightarrow> py_error + int" where
  "int_of_cell cell =
     (case cell of
        None \<Rightarrow> Inl TypeError
      | Some s \<Rightarrow>
          if s = [] then Inl ValueError
          else (case decimal s 0 of None \<Rightarrow> Inl ValueError | Some n \<Rightarrow> Inr (int n)))"

definition float_of_cell :: "string option \<Rightarrow> py_error + real" where
  "float_of_cell cell =
     (case cell of
        None \<Rightarrow> Inl TypeError
      | Some s \<Rightarrow>
          if s = [] then Inl ValueError
          else (case decimal s 0 of None \<Rightarrow> Inl ValueError | Some n \<Rightarrow> Inr (real n)))"

definition good_row :: "string \<rightharpoonup> string option" where
  "good_row = [''sale_price'' \<mapsto> Some ''150000'', ''gr_liv_area'' \<mapsto> Some ''1500'',
               ''bedroom_abv_gr'' \<mapsto> Some ''3'', ''year_built'' \<mapsto> Some ''2005'',
               ''overall_qual'' \<mapsto> Some ''7'']"



definition sample_simulation ::
  "(string \<rightharpoonup> string option) list \<Rightarrow> consumer list option \<Rightarrow> house list option
     \<Rightarrow> string option simulation" where
  "sample_simulation rows cs hs =
     \<lparr>housing_market_data = rows, years = 5,
      cleaning_market_mechanism = INCOME_ORDER_DESCENDANT,
      housing_market = hs, consumers = cs\<rparr>"

section \<open>Savings accumulation\<close>









section \<open>Quality score\<close>




section \<open>Eligibility query of the market\<close>


lemma optimizer_try_errors:
  "optimizer_try all h = Inl e \<Longrightarrow> e = ValueError \<or> e = ZeroDivisionError"
  by (auto simp: optimizer_try_def calculate_price_per_square_foot_def
      calculate_average_price_def mean_def Let_def split: sum.splits if_splits)

lemma average_try_errors: "average_try all h = Inl e \<Longrightarrow> e = ValueError"
  by (auto simp: average_try_def calculate_average_price_def mean_def Let_def
      split: sum.splits if_splits)

text \<open>The OPTIMIZER and AVERAGE branches never let an exception out, whatever the market.\<close>

lemma house_meets_no_error:
  assumes "seg \<noteq> FANCY"
  shows "\<exists>keep. house_meets all mp seg h = Inr keep"
proof (cases seg)
  case FANCY
  with assms show ?thesis by simp
next
  case OPTIMIZER
  then show ?thesis
    by (cases "optimizer_try all h") (auto simp: house_meets_def dest: optimizer_try_errors)
next
  case AVERAGE
  then show ?thesis
    by (cases "average_try all h") (auto simp: house_meets_def dest: average_try_errors)
qed

lemma calculate_average_price_available:
  assumes "h \<in> set hs" and "available h"
  shows "calculate_average_price hs None = Inr (average_price hs)"
    and "mean (map area (filter available hs)) = Inr (average_area hs)"
proof -
  from assms have "filter available hs \<noteq> []"
    by (auto simp: filter_empty_conv)
  then show "calculate_average_price hs None = Inr (average_price hs)"
    and "mean (map area (filter available hs)) = Inr (average_area hs)"
    by (simp_all add: calculate_average_price_def mean_def average_price_def average_area_def
        Let_def)
qed

lemma house_meets_eligible:
  assumes "h \<in> set hs" and "seg = FANCY \<Longrightarrow> available h \<Longrightarrow> price h \<le> mp \<Longrightarrow> year_valid h"
  shows "house_meets hs mp seg h = Inr (eligible hs mp seg h)"
proof (cases "available h \<and> price h \<le> mp")
  case False
  then show ?thesis by (auto simp: house_meets_def eligible_def)
next
  case True
  note avg = calculate_average_price_available [OF assms(1)]
  show ?thesis
  proof (cases seg)
    case FANCY
    with assms(2) True have "year_valid h" by simp
    with FANCY True show ?thesis
      by (simp add: house_meets_def eligible_def segment_rule_def is_new_construction_def
          year_valid_def)
  next
    case OPTIMIZER
    with True avg show ?thesis
      by (simp add: house_meets_def eligible_def segment_rule_def optimizer_try_def
          calculate_price_per_square_foot_def not_le)
  next
    case AVERAGE
    with True avg show ?thesis
      by (simp add: house_meets_def eligible_def segment_rule_def average_try_def not_less)
  qed
qed

lemma matching_houses_filter:
  assumes "\<forall>h\<in>set rest. house_meets all mp seg h = Inr (P h)"
  shows "matching_houses all mp seg k rest =
           Inr (filter (\<lambda>j. P (rest ! (j - k))) [k..<k + length rest])"
  using assms
proof (induction rest arbitrary: k)
  case Nil
  then show ?case by simp
next
  case (Cons h rest)
  have shift: "filter (\<lambda>j. P ((h # rest) ! (j - k))) [Suc k..<Suc k + length rest]
             = filter (\<lambda>j. P (rest ! (j - Suc k))) [Suc k..<Suc k + length rest]"
    by (rule filter_cong) (auto simp: nth_Cons' Suc_diff_le)
  have upt: "[k..<k + length (h # rest)] = k # [Suc k..<Suc k + length rest]"
    by (subst upt_conv_Cons) simp_all
  from Cons.prems have "\<forall>h\<in>set rest. house_meets all mp seg h = Inr (P h)" by simp
  from Cons.IH [OF this, of "Suc k"] Cons.prems show ?case
    by (simp only: upt shift [symmetric]) simp
qed



text \<open>
  What the query returns when nothing is raised inside the loop: for the segments OPTIMIZER
  and AVERAGE always, for FANCY when every available house within the price ceiling has a
  year of construction in \<open>[1800, 2024]\<close>. The result lists, in the order of the market's
  list, exactly the eligible houses.
\<close>

lemma get_houses_that_meet_requirements_eligible:
  assumes "0 < mp"
    and "seg = FANCY \<Longrightarrow> \<forall>h\<in>set hs. available h \<and> price h \<le> mp \<longrightarrow> year_valid h"
  shows "get_houses_that_meet_requirements hs mp seg =
           Inr (filter (\<lambda>j. eligible hs mp seg (hs ! j)) [0..<length hs])"
proof -
  have "\<forall>h\<in>set hs. house_meets hs mp seg h = Inr (eligible hs mp seg h)"
    using assms(2) by (auto intro: house_meets_eligible)
  from matching_houses_filter [OF this, of 0] assms(1) show ?thesis
    by (simp add: get_houses_that_meet_requirements_def)
qed

lemma get_houses_that_meet_requirements_nonpositive:
  "mp \<le> 0 \<Longrightarrow> get_houses_that_meet_requirements hs mp seg = Inl ValueError"
  by (simp add: get_houses_that_meet_requirements_def)

text \<open>
  C4. The claim: with segment FANCY a house whose year of construction fails the validation
  of \<^verbatim>\<open>is_new_construction\<close> is left out of the result and no error reaches the caller.
  The code calls \<^verbatim>\<open>is_new_construction\<close> outside any \<^verbatim>\<open>try\<close> (unlike the OPTIMIZER and
  AVERAGE branches), so the query raises \<^verbatim>\<open>ValueError\<close>: here for one available, affordable
  house built in 2025, and for one built in 1799.
\<close>

theorem fancy_query_invalid_year_raises:
  "get_houses_that_meet_requirements [new_excellent_house\<lparr>year_built := 2025\<rparr>] 500000 FANCY
     = Inl ValueError \<and>
   get_houses_that_meet_requirements [new_excellent_house\<lparr>year_built := 1799\<rparr>] 500000 FANCY
     = Inl ValueError"
  by (simp add: get_houses_that_meet_requirements_def house_meets_def is_new_construction_def
      new_excellent_house_def)

text \<open>
  C5. The claim: the query raises exactly when \<open>max_price \<le> 0\<close>, and otherwise returns the
  eligible houses in list order. With a positive \<open>max_price\<close> and segment FANCY the query
  over a market of a new excellent house followed by an affordable house built in 1799 raises
  \<^verbatim>\<open>ValueError\<close>, where the claim has the one-element result with the first house.
\<close>

theorem positive_max_price_query_raises:
  "(0 :: real) < 500000 \<and>
   get_houses_that_meet_requirements
     [new_excellent_house,
      \<lparr>house_id = 1, price = 90000, area = 900, bedrooms = 2, year_built = 1799,
        quality_score = Some FAIR, available = True\<rparr>] 500000 FANCY
     = Inl ValueError"
  by (simp add: get_houses_that_meet_requirements_def house_meets_def is_new_construction_def
      new_excellent_house_def)

section \<open>Purchase\<close>




text \<open>
  C10. A consumer without a house and with savings \<open>\<le> 0\<close> (the initial savings are 0) makes
  \<^verbatim>\<open>buy_a_house\<close> raise the \<^verbatim>\<open>ValueError\<close> of the market's check of \<open>max_price \<le> 0\<close>, for
  \<open>max_price = savings * 5\<close>, whatever the market holds.
\<close>

theorem buy_a_house_without_savings_raises:
  "house c = None \<Longrightarrow> savings c \<le> 0 \<Longrightarrow> buy_a_house c hs = Inl ValueError"
  by (simp add: buy_a_house_def get_houses_that_meet_requirements_def Let_def)

theorem buy_a_house_without_savings_raises_witness:
  "house saver = None \<and> savings saver \<le> 0 \<and> buy_a_house saver small_market = Inl ValueError"
proof -
  have h: "house saver = None" "savings saver \<le> 0" by (simp_all add: saver_def)
  from buy_a_house_without_savings_raises [OF h] h show ?thesis by simp
qed

section \<open>Market clearing\<close>

















text \<open>
  The run of the sample: by descending income \<open>wealthy\<close> is served first and buys the house
  priced 150000 (the other one is above the average price); \<open>buyer\<close> then finds the only
  available house above the price ceiling.
\<close>

lemma sample_clearing_run:
  "clean_the_market [] (sample_simulation [] (Some [buyer, wealthy]) (Some small_market)) =
     (None,
      sample_simulation []
        (Some [buyer, wealthy\<lparr>house := Some 1, savings := 70000\<rparr>])
        (Some (small_market[1 := (small_market ! 1)\<lparr>available := False\<rparr>])))"
  by (simp add: clean_the_market_def sample_simulation_def consumers_to_process_def
      buyer_def wealthy_def small_market_def buy_a_house_def
      get_houses_that_meet_requirements_def house_meets_def average_try_def
      calculate_average_price_def mean_def sell_house_def Let_def upt_rec)

section \<open>Building the market from raw records\<close>

lemma bind_err_Inr_iff: "bind_err m f = Inr y \<longleftrightarrow> (\<exists>x. m = Inr x \<and> f x = Inr y)"
  by (cases m) auto


lemma read_field_Inr_iff:
  "(\<exists>x. read_field conv d k = Inr x) \<longleftrightarrow> has_number conv d k"
  by (auto simp: read_field_def has_number_def subscript_def split: option.splits sum.splits)


lemma read_quality_Inr_iff:
  "(\<exists>q. read_quality to_int d = Inr q) \<longleftrightarrow> quality_field_ok to_int d"
  by (auto simp: read_quality_def quality_field_ok_def bind_err_Inr_iff split: option.splits sum.splits)


text \<open>A record yields a house exactly when it is well formed.\<close>

lemma make_house_Inr:
  assumes "make_house to_int to_float idx d = Inr h"
  shows "well_formed to_int to_float d \<and> house_id h = int idx \<and> available h"
proof -
  from assms obtain q p a b y where
    "read_quality to_int d = Inr q"
    "read_field to_float d ''sale_price'' = Inr p"
    "read_field to_float d ''gr_liv_area'' = Inr a"
    "read_field to_int d ''bedroom_abv_gr'' = Inr b"
    "read_field to_int d ''year_built'' = Inr y"
    "h = \<lparr>house_id = int idx, price = p, area = a, bedrooms = b, year_built = y,
            quality_score = q, available = True\<rparr>"
    unfolding make_house_def by (auto simp: bind_err_Inr_iff)
  then show ?thesis
    using read_quality_Inr_iff [of to_int d]
      read_field_Inr_iff [of to_float d "''sale_price''"]
      read_field_Inr_iff [of to_float d "''gr_liv_area''"]
      read_field_Inr_iff [of to_int d "''bedroom_abv_gr''"]
      read_field_Inr_iff [of to_int d "''year_built''"]
    unfolding well_formed_def required_fields_ok_def by auto
qed




text \<open>Every house \<^verbatim>\<open>create_housing_market\<close> builds is available.\<close>

lemma build_houses_available:
  "build_houses to_int to_float idx ds = Inr hs \<Longrightarrow> \<forall>h\<in>set hs. available h"
proof (induction ds arbitrary: idx hs)
  case Nil
  then show ?case by simp
next
  case (Cons d ds)
  show ?case
  proof (cases "make_house to_int to_float idx d")
    case (Inl e)
    with Cons.prems have "build_houses to_int to_float (Suc idx) ds = Inr hs"
      by (simp split: if_splits)
    from Cons.IH [OF this] show ?thesis .
  next
    case (Inr h)
    with Cons.prems obtain hs' where
      rec: "build_houses to_int to_float (Suc idx) ds = Inr hs'" and hs: "hs = h # hs'"
      by (auto split: sum.splits)
    from make_house_Inr [OF Inr] Cons.IH [OF rec] hs show ?thesis by simp
  qed
qed

lemma create_housing_market_all_available:
  assumes "create_housing_market to_int to_float sim = Inr sim'"
  shows "\<exists>hs. housing_market sim' = Some hs \<and> (\<forall>h\<in>set hs. available h)"
proof -
  from assms obtain hs where
    b: "build_houses to_int to_float 0 (housing_market_data sim) = Inr hs" and
    s: "sim' = sim\<lparr>housing_market := Some hs\<rparr>"
    by (auto simp: create_housing_market_def split: sum.splits)
  from build_houses_available [OF b] s show ?thesis by simp
qed





text \<open>
  Outside the amended claim: a conversion that raises another exception is not caught. A
  required cell holding \<^verbatim>\<open>None\<close> (what the repository's cleaner puts for a missing value)
  makes \<^verbatim>\<open>float(None)\<close> raise \<^verbatim>\<open>TypeError\<close>, which leaves \<^verbatim>\<open>create_housing_market\<close>.
\<close>

lemma create_housing_market_TypeError_escapes:
  "create_housing_market int_of_cell float_of_cell
     (sample_simulation [good_row(''sale_price'' \<mapsto> None), good_row] None None)
   = Inl TypeError"
  by (simp add: create_housing_market_def sample_simulation_def make_house_def read_quality_def
      read_field_def subscript_def good_row_def int_of_cell_def float_of_cell_def digit_of_def)

end
